theory Spec2Isabelle
  imports Main
begin

section \<open>The greeting backend (backend/app.py)\<close>

text \<open>
  The program is one Python module of three statements: it creates a FastAPI application
  (line 5), registers a CORS middleware on it (lines 8 to 14) and registers the function
  \<^verbatim>\<open>read_root\<close> for GET on the path /api/hello (lines 16 to 18). The module
  holds no other code. What the application object and its registrations are is taken from
  those statements; how a request is routed and how the middleware decorates a response
  is behaviour of the imported library, which the module does not contain, and is marked
  as such where it is modelled.
\<close>

subsection \<open>Requests and responses\<close>

type_synonym header = "string \<times> string"

text \<open>
  A request as the server receives it. Header names are kept in the spelling the
  specification uses (\<^verbatim>\<open>Origin\<close>); the first header of a name is the one read.
\<close>

record request =
  req_method :: string
  req_path :: string
  req_query :: string
  req_headers :: "header list"
  req_body :: string

text \<open>A Python dict with string keys and string values, and the body of a response.\<close>

type_synonym pydict = "string \<rightharpoonup> string"

datatype payload = JsonBody pydict | RawBody string

record response =
  status_code :: nat
  media_type :: string
  headers :: "header list"
  body :: payload

text \<open>An exception escaping an endpoint; the library answers it with its 500 response.\<close>

datatype error = Unhandled string

subsection \<open>The handler\<close>

text \<open>
  \<^verbatim>\<open>def read_root(): return {"message": "Hello from Python!"}\<close>

  The function takes no parameter. The state \<open>'s\<close> stands for everything outside the
  function (module globals, files, the network): it is passed in and handed back, so that
  a mutation or an exception would show in the result.
\<close>

type_synonym 's endpoint = "'s \<Rightarrow> (error + pydict) \<times> 's"

definition read_root :: "'s endpoint" where
  "read_root s = (Inr [''message'' \<mapsto> ''Hello from Python!''], s)"

subsection \<open>The application object\<close>

text \<open>
  The keyword arguments of the middleware registration, lines 10 to 13. The lists of
  methods and of headers are kept as the module passes them; the library reads them when
  it answers a preflight request, which is not modelled here.
\<close>

record cors_options =
  allow_origins :: "string list"
  allow_credentials :: bool
  allow_methods :: "string list"
  allow_headers :: "string list"

datatype middleware = CORSMiddleware cors_options

text \<open>
  A route as the decorator of line 16 declares it: a path, the methods it is registered
  for, an optional status code (the decorator passes none) and the function.
\<close>

record 's route =
  route_path :: string
  route_methods :: "string list"
  route_status_code :: "nat option"
  route_endpoint :: "'s endpoint"

text \<open>
  The application holds what the module registers on it. Routes that the library serves on
  its own account are not part of it; they belong to the fallback of \<open>dispatch\<close> below.
\<close>

record 's fastapi =
  user_middleware :: "middleware list"
  routes :: "'s route list"

definition FastAPI :: "'s fastapi" where
  "FastAPI = \<lparr>user_middleware = [], routes = []\<rparr>"

definition add_middleware :: "middleware \<Rightarrow> 's fastapi \<Rightarrow> 's fastapi" where
  "add_middleware m a = a\<lparr>user_middleware := m # user_middleware a\<rparr>"

definition get :: "string \<Rightarrow> 's endpoint \<Rightarrow> 's fastapi \<Rightarrow> 's fastapi" where
  "get p f a = a\<lparr>routes := routes a @
     [\<lparr>route_path = p, route_methods = [''GET''], route_status_code = None,
       route_endpoint = f\<rparr>]\<rparr>"

definition cors :: cors_options where
  "cors = \<lparr>allow_origins = [''http://localhost:3000''], allow_credentials = True,
            allow_methods = [''*''], allow_headers = [''*'']\<rparr>"

text \<open>The module, statement by statement and in its order.\<close>

definition app :: "'s fastapi" where
  "app = get ''/api/hello'' read_root (add_middleware (CORSMiddleware cors) FastAPI)"

subsection \<open>Request processing\<close>

text \<open>
  Modelled from the spec: the status code and the content type of a route that declares
  neither, which are defaults of the library and not in the module. Section 6 of the
  specification: "Response: HTTP 200, content type JSON".
\<close>

definition default_status_code :: nat where
  "default_status_code = 200"

definition default_media_type :: string where
  "default_media_type = ''application/json''"

text \<open>
  Modelled from the spec: route matching of the library's router, which is not in the
  module. The glossary: a route is "a mapping from an HTTP method and path pattern to a
  handler"; section 1: "single static path matching". The query string is not part of the
  path.
\<close>

definition matches :: "'s route \<Rightarrow> request \<Rightarrow> bool" where
  "matches r req \<longleftrightarrow>
     req_path req = route_path r \<and> req_method req \<in> set (route_methods r)"

text \<open>
  Modelled from the spec: the call of a matched route's function by the library. The
  function of the module has no parameter, so nothing of the request is passed to it; its
  dict becomes the JSON body. An exception leaves as \<open>Inl\<close>.
\<close>

definition run_endpoint :: "'s route \<Rightarrow> 's \<Rightarrow> (error + response) \<times> 's" where
  "run_endpoint r s =
     (case route_endpoint r s of
        (Inl e, s') \<Rightarrow> (Inl e, s')
      | (Inr d, s') \<Rightarrow>
          (Inr \<lparr>status_code = (case route_status_code r of
                                  None \<Rightarrow> default_status_code | Some c \<Rightarrow> c),
                media_type = default_media_type, headers = [], body = JsonBody d\<rparr>, s'))"

text \<open>
  Modelled from the spec: the router. A request that a registered route matches is served
  by the first such route. What the library answers to any other request (its not-found
  and method-not-allowed responses, its own routes) is not in the module and is the
  parameter \<open>fallback\<close>.
\<close>

definition dispatch ::
  "(request \<Rightarrow> 's \<Rightarrow> response \<times> 's) \<Rightarrow> 's fastapi \<Rightarrow> request \<Rightarrow> 's \<Rightarrow> (error + response) \<times> 's"
where
  "dispatch fallback a req s =
     (case find (\<lambda>r. matches r req) (routes a) of
        Some r \<Rightarrow> run_endpoint r s
      | None \<Rightarrow> (case fallback req s of (resp, s') \<Rightarrow> (Inr resp, s')))"

text \<open>
  Modelled from the spec: the response-header step of \<^verbatim>\<open>CORSMiddleware\<close>, a class of
  the library imported at line 3 and not in the module. Section 4.1: requests from the
  allowed origin "are permitted to read responses and to send credentials"; for any other
  origin the server "simply omits the permissive response headers". Section 8 names the
  headers. A wildcard among the origins is not modelled: the module lists one origin.
\<close>

definition cors_headers :: "cors_options \<Rightarrow> request \<Rightarrow> header list" where
  "cors_headers opts req =
     (case map_of (req_headers req) ''Origin'' of
        None \<Rightarrow> []
      | Some origin \<Rightarrow>
          if origin \<in> set (allow_origins opts)
          then (''Access-Control-Allow-Origin'', origin) #
               (if allow_credentials opts
                then [(''Access-Control-Allow-Credentials'', ''true'')] else [])
          else [])"

fun apply_middleware :: "middleware \<Rightarrow> request \<Rightarrow> response \<Rightarrow> response" where
  "apply_middleware (CORSMiddleware opts) req resp =
     resp\<lparr>headers := headers resp @ cors_headers opts req\<rparr>"

text \<open>
  Modelled from the spec: the application as a whole. Section 4.1: the cross-origin policy
  is "applied to all routes, not a distinct operation but a request-processing step".
  Every response of the router passes through the registered middleware, the first of the
  list outermost; an escaping exception passes by them.
\<close>

definition serve ::
  "(request \<Rightarrow> 's \<Rightarrow> response \<times> 's) \<Rightarrow> 's fastapi \<Rightarrow> request \<Rightarrow> 's \<Rightarrow> (error + response) \<times> 's"
where
  "serve fallback a req s =
     (case dispatch fallback a req s of
        (Inl e, s') \<Rightarrow> (Inl e, s')
      | (Inr resp, s') \<Rightarrow>
          (Inr (foldr (\<lambda>m. apply_middleware m req) (user_middleware a) resp), s'))"


text \<open>The request of the endpoint: method GET, path /api/hello, anything else free.\<close>

definition is_hello :: "request \<Rightarrow> bool" where
  "is_hello req \<longleftrightarrow> req_method req = ''GET'' \<and> req_path req = ''/api/hello''"

text \<open>Concrete values for the examples below.\<close>

definition hello_dict :: pydict where
  "hello_dict = [''message'' \<mapsto> ''Hello from Python!'']"

definition sample_fallback :: "request \<Rightarrow> nat \<Rightarrow> response \<times> nat" where
  "sample_fallback req s =
     (\<lparr>status_code = 404, media_type = ''application/json'', headers = [],
       body = RawBody ''Not Found''\<rparr>, Suc s)"

definition sample_request :: "string \<Rightarrow> string \<Rightarrow> header list \<Rightarrow> request" where
  "sample_request m p hs =
     \<lparr>req_method = m, req_path = p, req_query = ''x=1'', req_headers = hs, req_body = ''''\<rparr>"

section \<open>Properties\<close>

subsection \<open>The application object and the router\<close>

lemma app_routes:
  "routes (app :: 's fastapi) =
     [\<lparr>route_path = ''/api/hello'', route_methods = [''GET''], route_status_code = None,
       route_endpoint = read_root\<rparr>]"
  by (simp add: app_def get_def add_middleware_def FastAPI_def)

lemma app_middleware: "user_middleware (app :: 's fastapi) = [CORSMiddleware cors]"
  by (simp add: app_def get_def add_middleware_def FastAPI_def)

lemma matches_hello:
  "matches \<lparr>route_path = ''/api/hello'', route_methods = [''GET''], route_status_code = None,
            route_endpoint = f\<rparr> req = is_hello req"
  by (auto simp: matches_def is_hello_def)

lemma dispatch_hello:
  assumes "is_hello req"
  shows "dispatch fallback app req s =
           (Inr \<lparr>status_code = 200, media_type = ''application/json'', headers = [],
                 body = JsonBody hello_dict\<rparr>, s)"
  using assms
  by (simp add: dispatch_def app_routes matches_hello run_endpoint_def read_root_def
      default_status_code_def default_media_type_def hello_dict_def)

lemma dispatch_other:
  assumes "\<not> is_hello req"
  shows "dispatch fallback app req s = (Inr (fst (fallback req s)), snd (fallback req s))"
  using assms by (simp add: dispatch_def app_routes matches_hello split: prod.splits)

lemma serve_app:
  "serve fallback app req s =
     (case dispatch fallback app req s of
        (Inl e, s') \<Rightarrow> (Inl e, s')
      | (Inr resp, s') \<Rightarrow> (Inr (resp\<lparr>headers := headers resp @ cors_headers cors req\<rparr>), s'))"
  by (simp add: serve_def app_middleware split: prod.splits sum.splits)

lemma serve_hello:
  assumes "is_hello req"
  shows "serve fallback app req s =
           (Inr \<lparr>status_code = 200, media_type = ''application/json'',
                 headers = cors_headers cors req, body = JsonBody hello_dict\<rparr>, s)"
  by (simp add: serve_app dispatch_hello [OF assms])

lemma is_hello_sample: "is_hello (sample_request ''GET'' ''/api/hello'' hs)"
  by (simp add: is_hello_def sample_request_def)

lemma cors_headers_allowed:
  assumes "map_of (req_headers req) ''Origin'' = Some ''http://localhost:3000''"
  shows "cors_headers cors req =
           [(''Access-Control-Allow-Origin'', ''http://localhost:3000''),
            (''Access-Control-Allow-Credentials'', ''true'')]"
  using assms by (simp add: cors_headers_def cors_def)

lemma cors_headers_other:
  assumes "map_of (req_headers req) ''Origin'' = Some origin"
    and "origin \<noteq> ''http://localhost:3000''"
  shows "cors_headers cors req = []"
  using assms by (simp add: cors_headers_def cors_def)

lemma serve_response:
  "\<exists>resp. fst (serve fallback app req s) = Inr resp \<and>
          set (cors_headers cors req) \<subseteq> set (headers resp)"
proof (cases "is_hello req")
  case True
  then show ?thesis by (simp add: serve_hello)
next
  case False
  then show ?thesis by (simp add: serve_app dispatch_other)
qed

subsection \<open>The endpoint\<close>

text \<open>
  C1. Every request GET /api/hello is answered with status 200, content type JSON and a
  body that is the object with the one key "message", bound to "Hello from Python!".
\<close>

theorem hello_returns_greeting:
  assumes "req_method req = ''GET''" and "req_path req = ''/api/hello''"
  shows "\<exists>resp d. fst (serve fallback app req s) = Inr resp \<and>
           status_code resp = 200 \<and> media_type resp = ''application/json'' \<and>
           body resp = JsonBody d \<and> dom d = {''message''} \<and>
           d ''message'' = Some ''Hello from Python!''"
proof -
  from assms have "is_hello req" by (simp add: is_hello_def)
  then show ?thesis by (simp add: serve_hello hello_dict_def)
qed

theorem hello_returns_greeting_witness:
  "req_method (sample_request ''GET'' ''/api/hello'' []) = ''GET'' \<and>
   req_path (sample_request ''GET'' ''/api/hello'' []) = ''/api/hello'' \<and>
   (\<exists>resp d. fst (serve sample_fallback app (sample_request ''GET'' ''/api/hello'' []) 0)
                = Inr resp \<and>
      status_code resp = 200 \<and> media_type resp = ''application/json'' \<and>
      body resp = JsonBody d \<and> dom d = {''message''} \<and>
      d ''message'' = Some ''Hello from Python!'')"
  using hello_returns_greeting [of "sample_request ''GET'' ''/api/hello'' []" sample_fallback 0]
  by (simp add: sample_request_def)

text \<open>
  C5. Two requests GET /api/hello, however they differ in query, headers, body or the
  moment they arrive (the state they meet), get the same result from the handler and from
  the route: status 200, the same content type and the same body.
\<close>

theorem hello_ignores_request:
  assumes "is_hello req1" and "is_hello req2"
  shows "fst (read_root s1) = fst (read_root s2) \<and>
         fst (dispatch fallback1 app req1 s1) = fst (dispatch fallback2 app req2 s2) \<and>
         (\<exists>r1 r2. fst (serve fallback1 app req1 s1) = Inr r1 \<and>
                  fst (serve fallback2 app req2 s2) = Inr r2 \<and>
                  status_code r1 = 200 \<and> status_code r2 = 200 \<and>
                  media_type r1 = media_type r2 \<and> body r1 = body r2)"
  using assms by (simp add: read_root_def dispatch_hello serve_hello)

theorem hello_ignores_request_witness:
  "is_hello (sample_request ''GET'' ''/api/hello'' []) \<and>
   is_hello \<lparr>req_method = ''GET'', req_path = ''/api/hello'', req_query = ''lang=fr'',
             req_headers = [(''Origin'', ''http://evil.example''), (''Cookie'', ''k=v'')],
             req_body = ''ignored''\<rparr> \<and>
   fst (dispatch sample_fallback app (sample_request ''GET'' ''/api/hello'' []) 0) =
   fst (dispatch sample_fallback app
          \<lparr>req_method = ''GET'', req_path = ''/api/hello'', req_query = ''lang=fr'',
            req_headers = [(''Origin'', ''http://evil.example''), (''Cookie'', ''k=v'')],
            req_body = ''ignored''\<rparr> 7)"
  using hello_ignores_request
    [of "sample_request ''GET'' ''/api/hello'' []"
        "\<lparr>req_method = ''GET'', req_path = ''/api/hello'', req_query = ''lang=fr'',
          req_headers = [(''Origin'', ''http://evil.example''), (''Cookie'', ''k=v'')],
          req_body = ''ignored''\<rparr>"
        "0::nat" "7::nat" sample_fallback sample_fallback]
  by (simp add: is_hello_def sample_request_def)



text \<open>
  C10. The handler returns a dict in every state and never an exception, so a request
  GET /api/hello never ends in the exception branch that the library answers with 500.
\<close>

theorem read_root_never_raises:
  assumes "is_hello req"
  shows "(\<exists>d. read_root s = (Inr d, s)) \<and> (\<forall>e. fst (read_root s) \<noteq> Inl e) \<and>
         (\<exists>resp. fst (serve fallback app req s) = Inr resp) \<and>
         (\<forall>e. fst (serve fallback app req s) \<noteq> Inl e)"
  using assms by (simp add: read_root_def serve_hello)

theorem read_root_never_raises_witness:
  "is_hello (sample_request ''GET'' ''/api/hello'' []) \<and>
   (\<forall>e. fst (serve sample_fallback app (sample_request ''GET'' ''/api/hello'' []) 3) \<noteq> Inl e)"
  using read_root_never_raises [of "sample_request ''GET'' ''/api/hello'' []" "3::nat" sample_fallback]
  by (simp add: is_hello_sample)

subsection \<open>The cross-origin policy\<close>

text \<open>
  C2. Every request that carries the Origin header http://localhost:3000, on any path and
  with any method, gets a response, and the response has the headers
  Access-Control-Allow-Origin: http://localhost:3000 and
  Access-Control-Allow-Credentials: true.
\<close>

theorem allowed_origin_gets_headers:
  assumes "map_of (req_headers req) ''Origin'' = Some ''http://localhost:3000''"
  shows "\<exists>resp. fst (serve fallback app req s) = Inr resp \<and>
           (''Access-Control-Allow-Origin'', ''http://localhost:3000'') \<in> set (headers resp) \<and>
           (''Access-Control-Allow-Credentials'', ''true'') \<in> set (headers resp)"
  using serve_response [of fallback req s] cors_headers_allowed [OF assms] by auto

theorem allowed_origin_gets_headers_witness:
  "map_of (req_headers (sample_request ''POST'' ''/api/unknown''
                          [(''Origin'', ''http://localhost:3000'')])) ''Origin''
     = Some ''http://localhost:3000'' \<and>
   (\<exists>resp. fst (serve sample_fallback app
                  (sample_request ''POST'' ''/api/unknown''
                     [(''Origin'', ''http://localhost:3000'')]) 0) = Inr resp \<and>
      (''Access-Control-Allow-Origin'', ''http://localhost:3000'') \<in> set (headers resp) \<and>
      (''Access-Control-Allow-Credentials'', ''true'') \<in> set (headers resp))"
  using allowed_origin_gets_headers
    [of "sample_request ''POST'' ''/api/unknown'' [(''Origin'', ''http://localhost:3000'')]"
        sample_fallback 0]
  by (simp add: sample_request_def)

text \<open>
  C4. A request GET /api/hello whose Origin header names any other origin is not turned
  away: it gets status 200 and the same body, and the response has no
  Access-Control-Allow-Origin header for that origin.
\<close>

theorem other_origin_still_served:
  assumes "req_method req = ''GET''" and "req_path req = ''/api/hello''"
    and "map_of (req_headers req) ''Origin'' = Some origin"
    and "origin \<noteq> ''http://localhost:3000''"
  shows "\<exists>resp. fst (serve fallback app req s) = Inr resp \<and>
           status_code resp = 200 \<and>
           body resp = JsonBody [''message'' \<mapsto> ''Hello from Python!''] \<and>
           (''Access-Control-Allow-Origin'', origin) \<notin> set (headers resp)"
proof -
  from assms(1,2) have "is_hello req" by (simp add: is_hello_def)
  then show ?thesis
    by (simp add: serve_hello hello_dict_def cors_headers_other [OF assms(3,4)])
qed

theorem other_origin_still_served_witness:
  "req_method (sample_request ''GET'' ''/api/hello'' [(''Origin'', ''http://evil.example'')])
     = ''GET'' \<and>
   req_path (sample_request ''GET'' ''/api/hello'' [(''Origin'', ''http://evil.example'')])
     = ''/api/hello'' \<and>
   map_of (req_headers (sample_request ''GET'' ''/api/hello''
                          [(''Origin'', ''http://evil.example'')])) ''Origin''
     = Some ''http://evil.example'' \<and>
   ''http://evil.example'' \<noteq> ''http://localhost:3000'' \<and>
   (\<exists>resp. fst (serve sample_fallback app
                  (sample_request ''GET'' ''/api/hello''
                     [(''Origin'', ''http://evil.example'')]) 0) = Inr resp \<and>
      status_code resp = 200 \<and>
      body resp = JsonBody [''message'' \<mapsto> ''Hello from Python!''] \<and>
      (''Access-Control-Allow-Origin'', ''http://evil.example'') \<notin> set (headers resp))"
  using other_origin_still_served
    [of "sample_request ''GET'' ''/api/hello'' [(''Origin'', ''http://evil.example'')]"
        "''http://evil.example''" sample_fallback 0]
  by (simp add: sample_request_def)

end
